theory Spec2Isabelle
  imports Complex_Main
begin

section \<open>Data model of \<^verbatim>\<open>modal_app.py\<close>\<close>

text \<open>
  The three computation stages of \<^verbatim>\<open>src/modal_app.py\<close> take and return Python
  dictionaries. An input dictionary is a record whose fields are the keys the code reads,
  each of them optional: \<open>None\<close> is an absent key. Python floats are idealised as
  \<open>real\<close>, Python integers are \<open>int\<close>. The dictionaries the functions build are
  maps from key to value. A subscript \<^verbatim>\<open>d[k]\<close> on an absent key raises
  \<^verbatim>\<open>KeyError\<close> (the specification calls it MalformedEntry), a
  \<^verbatim>\<open>d.get(k, default)\<close> never does.

  The specification names the stages \<open>summarize\<close> (\<open>process_race_data\<close>), \<open>advise\<close>
  (\<open>generate_betting_advice\<close>) and \<open>analyze\<close> (\<open>analyze_historical_performance\<close>), writes
  the keys of a recommendation in snake case (\<open>recommended_bet\<close> is the key
  \<^verbatim>\<open>recommendedBet\<close>, \<open>expected_odds\<close> is \<^verbatim>\<open>expectedOdds\<close>), the key
  \<^verbatim>\<open>race_surface\<close> as \<open>surface\<close>, and the bet \<^verbatim>\<open>'No Bet'\<close> as the
  enumeration value \<open>NoBet\<close>.
\<close>

datatype error = KeyError string

datatype pyval = PyStr string | PyInt int | PyFloat real | PyList "int list"

type_synonym dict = "string \<rightharpoonup> pyval"

record entry =
  id_field :: "string option"
  name :: "string option"
  odds :: "real option"
  weight :: "real option"
  position :: "int option"

record race =
  surface :: "string option"
  horses :: "entry list option"
  results :: "entry list option"

record summary =
  analysis :: dict
  processed_data :: race

subsection \<open>Dictionary access, comprehensions, \<^verbatim>\<open>np.mean\<close>\<close>

definition dict_get :: "'a option \<Rightarrow> 'a \<Rightarrow> 'a" where
  \<comment> \<open>\<^verbatim>\<open>d.get(k, default)\<close>, for the field \<open>v\<close> of key \<open>k\<close>\<close>
  "dict_get v dflt = (case v of None \<Rightarrow> dflt | Some x \<Rightarrow> x)"

definition subscript :: "string \<Rightarrow> 'a option \<Rightarrow> error + 'a" where
  \<comment> \<open>\<^verbatim>\<open>d[k]\<close>, for the field \<open>v\<close> of key \<open>k\<close>\<close>
  "subscript k v = (case v of None \<Rightarrow> Inl (KeyError k) | Some x \<Rightarrow> Inr x)"

fun comprehension :: "('a \<Rightarrow> error + 'b) \<Rightarrow> 'a list \<Rightarrow> error + 'b list" where
  \<comment> \<open>\<^verbatim>\<open>[f(x) for x in xs]\<close>: the first element that raises ends it\<close>
  "comprehension f [] = Inr []"
| "comprehension f (x # xs) =
     (case f x of
        Inl e \<Rightarrow> Inl e
      | Inr y \<Rightarrow> (case comprehension f xs of Inl e \<Rightarrow> Inl e | Inr ys \<Rightarrow> Inr (y # ys)))"

fun filter_comprehension :: "('a \<Rightarrow> error + bool) \<Rightarrow> 'a list \<Rightarrow> error + 'a list" where
  \<comment> \<open>\<^verbatim>\<open>[x for x in xs if p(x)]\<close>\<close>
  "filter_comprehension p [] = Inr []"
| "filter_comprehension p (x # xs) =
     (case p x of
        Inl e \<Rightarrow> Inl e
      | Inr b \<Rightarrow>
          (case filter_comprehension p xs of
             Inl e \<Rightarrow> Inl e
           | Inr ys \<Rightarrow> Inr (if b then x # ys else ys)))"

definition mean :: "real list \<Rightarrow> real" where
  \<comment> \<open>\<^verbatim>\<open>np.mean\<close>, called on non-empty lists only\<close>
  "mean xs = sum_list xs / real (length xs)"

section \<open>\<^verbatim>\<open>process_race_data\<close>\<close>

definition process_race_data :: "race \<Rightarrow> error + summary" where
  "process_race_data race_data =
     (let hs = dict_get (horses race_data) [] in
      if hs \<noteq> [] then
        (case comprehension (\<lambda>h. subscript ''odds'' (odds h)) hs of
           Inl e \<Rightarrow> Inl e
         | Inr os \<Rightarrow>
             (case comprehension (\<lambda>h. subscript ''weight'' (weight h)) hs of
                Inl e \<Rightarrow> Inl e
              | Inr ws \<Rightarrow>
                  Inr \<lparr>analysis =
                         [''total_horses'' \<mapsto> PyInt (int (length hs)),
                          ''average_odds'' \<mapsto> PyFloat (mean os),
                          ''average_weight'' \<mapsto> PyFloat (mean ws),
                          ''race_surface'' \<mapsto> PyStr (dict_get (surface race_data) ''Unknown'')],
                       processed_data = race_data\<rparr>))
      else Inr \<lparr>analysis = Map.empty, processed_data = race_data\<rparr>)"

section \<open>\<^verbatim>\<open>generate_betting_advice\<close>\<close>

text \<open>
  The format specification \<^verbatim>\<open>.2f\<close> rounds to two decimals, ties to even, and keeps
  the sign of a negative number.
\<close>

definition round_half_even :: "real \<Rightarrow> int" where
  "round_half_even x =
     (let f = \<lfloor>x\<rfloor>; d = x - of_int f
      in if d < 1 / 2 then f else if 1 / 2 < d then f + 1 else if even f then f else f + 1)"

definition digit :: "nat \<Rightarrow> char" where
  "digit n = ''0123456789'' ! n"

function string_of_nat :: "nat \<Rightarrow> string" where
  "string_of_nat n = (if n < 10 then [digit n] else string_of_nat (n div 10) @ [digit (n mod 10)])"
  by pat_completeness auto
termination
  by (relation "measure (\<lambda>n. n)") auto

definition format_2f :: "real \<Rightarrow> string" where
  "format_2f x =
     (let n = nat (round_half_even (\<bar>x\<bar> * 100));
          s = string_of_nat (n div 100) @ ''.'' @ [digit (n div 10 mod 10), digit (n mod 10)]
      in if x < 0 then ''-'' @ s else s)"

definition recommendation :: "real \<Rightarrow> string" where
  "recommendation confidence =
     (if confidence > 0.7 then ''Win''
      else if confidence > 0.4 then ''Place''
      else ''No Bet'')"

text \<open>
  The body of the loop, for the confidence drawn: the three subscripts of the dictionary
  display are evaluated in the order \<^verbatim>\<open>id\<close>, \<^verbatim>\<open>name\<close>,
  \<^verbatim>\<open>odds\<close>, and the first absent key raises.
\<close>

definition advice_entry :: "real \<Rightarrow> entry \<Rightarrow> error + dict" where
  "advice_entry confidence horse =
     (case subscript ''id'' (id_field horse) of
        Inl e \<Rightarrow> Inl e
      | Inr horse_id \<Rightarrow>
          (case subscript ''name'' (name horse) of
             Inl e \<Rightarrow> Inl e
           | Inr horse_name \<Rightarrow>
               (case subscript ''odds'' (odds horse) of
                  Inl e \<Rightarrow> Inl e
                | Inr horse_odds \<Rightarrow>
                    Inr [''horseId'' \<mapsto> PyStr horse_id,
                         ''horseName'' \<mapsto> PyStr horse_name,
                         ''confidence'' \<mapsto> PyFloat confidence,
                         ''recommendedBet'' \<mapsto> PyStr (recommendation confidence),
                         ''reasoning'' \<mapsto>
                           PyStr (''Based on historical performance analysis (confidence: ''
                                  @ format_2f confidence @ '')''),
                         ''expectedOdds'' \<mapsto>
                           PyFloat (horse_odds * (1 + (1 - confidence) * 0.5))])))"

text \<open>
  \<^verbatim>\<open>np.random.uniform(0.1, 0.9)\<close> is called once for each horse, before the horse
  is read: \<open>rnd i\<close> is the value of the call numbered \<open>i\<close>.
\<close>

fun advice_loop :: "(nat \<Rightarrow> real) \<Rightarrow> nat \<Rightarrow> entry list \<Rightarrow> dict list \<Rightarrow> error + dict list" where
  "advice_loop rnd i [] advice = Inr advice"
| "advice_loop rnd i (horse # rest) advice =
     (let confidence = rnd i in
      case advice_entry confidence horse of
        Inl e \<Rightarrow> Inl e
      | Inr a \<Rightarrow> advice_loop rnd (Suc i) rest (advice @ [a]))"

definition generate_betting_advice ::
    "race \<Rightarrow> race list option \<Rightarrow> (nat \<Rightarrow> real) \<Rightarrow> error + dict list" where
  "generate_betting_advice race_data historical_data rnd =
     advice_loop rnd 0 (dict_get (horses race_data) []) []"

section \<open>\<^verbatim>\<open>analyze_historical_performance\<close>\<close>

fun any_id :: "string \<Rightarrow> entry list \<Rightarrow> error + bool" where
  \<comment> \<open>\<^verbatim>\<open>any(h['id'] == horse_id for h in hs)\<close>, which stops at the first match\<close>
  "any_id horse_id [] = Inr False"
| "any_id horse_id (h # hs) =
     (case subscript ''id'' (id_field h) of
        Inl e \<Rightarrow> Inl e
      | Inr i \<Rightarrow> if i = horse_id then Inr True else any_id horse_id hs)"

fun inner_loop :: "string \<Rightarrow> entry list \<Rightarrow> int list \<Rightarrow> error + int list" where
  "inner_loop horse_id [] positions = Inr positions"
| "inner_loop horse_id (horse # rest) positions =
     (case subscript ''id'' (id_field horse) of
        Inl e \<Rightarrow> Inl e
      | Inr i \<Rightarrow>
          inner_loop horse_id rest
            (if i = horse_id then positions @ [dict_get (position horse) 0] else positions))"

fun outer_loop :: "string \<Rightarrow> race list \<Rightarrow> int list \<Rightarrow> error + int list" where
  "outer_loop horse_id [] positions = Inr positions"
| "outer_loop horse_id (r # rest) positions =
     (case inner_loop horse_id (dict_get (results r) []) positions of
        Inl e \<Rightarrow> Inl e
      | Inr positions' \<Rightarrow> outer_loop horse_id rest positions')"

definition recent_form :: "int list \<Rightarrow> int list" where
  \<comment> \<open>\<^verbatim>\<open>positions[-5:] if len(positions) >= 5 else positions\<close>\<close>
  "recent_form positions =
     (if length positions \<ge> 5 then drop (length positions - 5) positions else positions)"

definition analyze_historical_performance :: "string \<Rightarrow> race list \<Rightarrow> error + dict" where
  "analyze_historical_performance horse_id races =
     (case filter_comprehension (\<lambda>r. any_id horse_id (dict_get (results r) [])) races of
        Inl e \<Rightarrow> Inl e
      | Inr horse_races \<Rightarrow>
          if horse_races = [] then
            Inr [''horse_id'' \<mapsto> PyStr horse_id, ''performance'' \<mapsto> PyStr ''No historical data'']
          else
            (case outer_loop horse_id horse_races [] of
               Inl e \<Rightarrow> Inl e
             | Inr positions \<Rightarrow>
                 (let avg_position =
                        (if positions \<noteq> [] then mean (map real_of_int positions) else 0);
                      win_rate =
                        (if positions \<noteq> []
                         then real (length (filter (\<lambda>p. p = 1) positions)) / real (length positions)
                         else 0)
                  in Inr [''horse_id'' \<mapsto> PyStr horse_id,
                          ''total_races'' \<mapsto> PyInt (int (length horse_races)),
                          ''average_position'' \<mapsto> PyFloat avg_position,
                          ''win_rate'' \<mapsto> PyFloat win_rate,
                          ''recent_form'' \<mapsto> PyList (recent_form positions)])))"

section \<open>Vocabulary of the statements\<close>

definition missing_key :: "entry \<Rightarrow> string option" where
  \<comment> \<open>the first of the keys \<^verbatim>\<open>id\<close>, \<^verbatim>\<open>name\<close>, \<^verbatim>\<open>odds\<close> that a horse lacks\<close>
  "missing_key h =
     (if id_field h = None then Some ''id''
      else if name h = None then Some ''name''
      else if odds h = None then Some ''odds''
      else None)"

definition runs_in :: "string \<Rightarrow> race \<Rightarrow> bool" where
  \<comment> \<open>the results of the race contain an entry whose \<^verbatim>\<open>id\<close> is \<open>horse_id\<close>\<close>
  "runs_in horse_id r \<longleftrightarrow> (\<exists>h\<in>set (dict_get (results r) []). id_field h = Some horse_id)"

definition ids_present :: "race list \<Rightarrow> bool" where
  \<comment> \<open>every entry of every results list has the key \<^verbatim>\<open>id\<close>\<close>
  "ids_present races \<longleftrightarrow>
     (\<forall>r\<in>set races. \<forall>h\<in>set (dict_get (results r) []). id_field h \<noteq> None)"

definition race_positions :: "string \<Rightarrow> race \<Rightarrow> int list" where
  \<comment> \<open>the positions of the entries of \<open>horse_id\<close> in one race, an absent position as 0\<close>
  "race_positions horse_id r =
     map (\<lambda>h. case position h of None \<Rightarrow> 0 | Some p \<Rightarrow> p)
       (filter (\<lambda>h. id_field h = Some horse_id) (dict_get (results r) []))"

definition positions_of :: "string \<Rightarrow> race list \<Rightarrow> int list" where
  "positions_of horse_id races = concat (map (race_positions horse_id) races)"

subsection \<open>Example inputs\<close>

definition no_entry :: entry where
  "no_entry = \<lparr>id_field = None, name = None, odds = None, weight = None, position = None\<rparr>"

definition no_race :: race where
  "no_race = \<lparr>surface = None, horses = None, results = None\<rparr>"

definition turf_race :: race where
  "turf_race =
     \<lparr>surface = Some ''Turf'',
      horses = Some
        [\<lparr>id_field = Some ''h1'', name = Some ''Alpha'', odds = Some 3, weight = Some 120,
          position = None\<rparr>,
         \<lparr>id_field = Some ''h2'', name = Some ''Beta'', odds = Some 5, weight = Some 115,
          position = None\<rparr>],
      results = None\<rparr>"

definition unweighed_race :: race where
  \<comment> \<open>the first horse has no weight\<close>
  "unweighed_race =
     no_race\<lparr>horses := Some
        [no_entry\<lparr>id_field := Some ''h1'', name := Some ''Alpha'', odds := Some 3\<rparr>,
         no_entry\<lparr>id_field := Some ''h2'', name := Some ''Beta'', odds := Some 5,
                  weight := Some 115\<rparr>]\<rparr>"

definition unnamed_race :: race where
  \<comment> \<open>the second horse has neither name nor odds\<close>
  "unnamed_race =
     no_race\<lparr>horses := Some
        [no_entry\<lparr>id_field := Some ''h1'', name := Some ''Alpha'', odds := Some 3\<rparr>,
         no_entry\<lparr>id_field := Some ''h2''\<rparr>,
         no_entry]\<rparr>"

definition boundary_draws :: "nat \<Rightarrow> real" where
  "boundary_draws i = (if i = 0 then 0.7 else 0.4)"

definition extreme_draws :: "nat \<Rightarrow> real" where
  "extreme_draws i = (if i = 0 then 1 else 0)"

definition result :: "string \<Rightarrow> int \<Rightarrow> entry" where
  "result i p = no_entry\<lparr>id_field := Some i, position := Some p\<rparr>"

definition two_races :: "race list" where
  "two_races =
     [no_race\<lparr>results := Some [result ''h1'' 1]\<rparr>, no_race\<lparr>results := Some [result ''h1'' 3]\<rparr>]"

definition long_history :: "race list" where
  \<comment> \<open>six entries of \<^verbatim>\<open>h1\<close> in two of three races, one of them without position\<close>
  "long_history =
     [no_race\<lparr>results := Some [result ''h1'' 1, result ''h2'' 2, no_entry\<lparr>id_field := Some ''h1''\<rparr>]\<rparr>,
      no_race\<lparr>results := Some [result ''h2'' 1]\<rparr>,
      no_race\<lparr>results := Some [result ''h1'' 3, result ''h1'' 1, result ''h1'' 4, result ''h1'' 2]\<rparr>]"

definition name_only :: "race list" where
  \<comment> \<open>\<^verbatim>\<open>h1\<close> is the name of an entry whose id is \<^verbatim>\<open>h2\<close>; the second race has no results\<close>
  "name_only =
     [no_race\<lparr>results := Some [(result ''h2'' 1)\<lparr>name := Some ''h1''\<rparr>]\<rparr>, no_race]"

section \<open>Race summary\<close>

lemma comprehension_subscript:
  "comprehension (\<lambda>h. subscript k (g h)) hs =
     (if \<forall>h\<in>set hs. g h \<noteq> None then Inr (map (\<lambda>h. the (g h)) hs) else Inl (KeyError k))"
  by (induction hs) (auto simp: subscript_def split: option.splits)

text \<open>
  C1. For a race whose list of horses \<open>hs\<close> is not empty and whose horses all have
  \<^verbatim>\<open>odds\<close> and \<^verbatim>\<open>weight\<close>, \<open>process_race_data\<close> returns the analysis with
  \<^verbatim>\<open>total_horses\<close> the number of horses, \<^verbatim>\<open>average_odds\<close> and
  \<^verbatim>\<open>average_weight\<close> the sums of the odds and of the weights divided by that number,
  and \<^verbatim>\<open>race_surface\<close> the surface of the race, \<^verbatim>\<open>'Unknown'\<close> when the race
  has none; the race itself is returned as \<^verbatim>\<open>processed_data\<close>. Floats are reals
  here, so the means are exact.
\<close>

theorem summarize_nonempty:
  assumes "dict_get (horses race_data) [] = hs" and "hs \<noteq> []"
    and "\<forall>h\<in>set hs. odds h \<noteq> None \<and> weight h \<noteq> None"
  shows "process_race_data race_data =
           Inr \<lparr>analysis =
                  [''total_horses'' \<mapsto> PyInt (int (length hs)),
                   ''average_odds'' \<mapsto> PyFloat ((\<Sum>h\<leftarrow>hs. the (odds h)) / real (length hs)),
                   ''average_weight'' \<mapsto> PyFloat ((\<Sum>h\<leftarrow>hs. the (weight h)) / real (length hs)),
                   ''race_surface'' \<mapsto>
                     PyStr (case surface race_data of None \<Rightarrow> ''Unknown'' | Some s \<Rightarrow> s)],
                processed_data = race_data\<rparr>"
  using assms
  by (simp add: process_race_data_def comprehension_subscript mean_def dict_get_def)

theorem summarize_nonempty_witness:
  "process_race_data turf_race =
     Inr \<lparr>analysis =
            [''total_horses'' \<mapsto> PyInt 2, ''average_odds'' \<mapsto> PyFloat 4,
             ''average_weight'' \<mapsto> PyFloat (235 / 2), ''race_surface'' \<mapsto> PyStr ''Turf''],
          processed_data = turf_race\<rparr>"
  using summarize_nonempty [of turf_race "the (horses turf_race)"]
  by (simp add: turf_race_def dict_get_def)

text \<open>
  C6. For a race whose list of horses is empty (the key \<^verbatim>\<open>horses\<close> absent, or
  the empty list), \<open>process_race_data\<close> raises nothing and returns the empty analysis
  and the race as it was given.
\<close>

theorem summarize_empty:
  "dict_get (horses race_data) [] = [] \<Longrightarrow>
     process_race_data race_data = Inr \<lparr>analysis = Map.empty, processed_data = race_data\<rparr>"
  by (simp add: process_race_data_def)

theorem summarize_empty_witness:
  "process_race_data \<lparr>surface = Some ''Turf'', horses = Some [], results = None\<rparr> =
     Inr \<lparr>analysis = Map.empty,
          processed_data = \<lparr>surface = Some ''Turf'', horses = Some [], results = None\<rparr>\<rparr>
   \<and> process_race_data \<lparr>surface = None, horses = None, results = None\<rparr> =
     Inr \<lparr>analysis = Map.empty,
          processed_data = \<lparr>surface = None, horses = None, results = None\<rparr>\<rparr>"
  using summarize_empty [of "\<lparr>surface = Some ''Turf'', horses = Some [], results = None\<rparr>"]
    summarize_empty [of "\<lparr>surface = None, horses = None, results = None\<rparr>"]
  by (simp add: dict_get_def)

section \<open>Betting advice\<close>

lemma advice_entry_Inl:
  "advice_entry c h = Inl e \<longleftrightarrow> missing_key h \<noteq> None \<and> e = KeyError (the (missing_key h))"
  by (auto simp: advice_entry_def subscript_def missing_key_def split: option.splits)

lemma advice_entry_Inr:
  "advice_entry c h = Inr a \<Longrightarrow>
     missing_key h = None \<and>
     a ''horseId'' = map_option PyStr (id_field h) \<and>
     a ''horseName'' = map_option PyStr (name h) \<and>
     a ''confidence'' = Some (PyFloat c) \<and>
     a ''recommendedBet'' = Some (PyStr (recommendation c)) \<and>
     a ''expectedOdds'' = Some (PyFloat (the (odds h) * (1 + (1 - c) * 0.5)))"
  by (auto simp: advice_entry_def subscript_def missing_key_def split: option.splits)

lemma advice_entry_total:
  "missing_key h = None \<Longrightarrow> \<exists>a. advice_entry c h = Inr a"
  by (auto simp: advice_entry_def subscript_def missing_key_def split: option.splits if_splits)

lemma advice_loop_Inr:
  "advice_loop rnd i hs acc = Inr recs \<Longrightarrow>
     \<exists>new. recs = acc @ new \<and> length new = length hs \<and>
       (\<forall>j<length hs. advice_entry (rnd (i + j)) (hs ! j) = Inr (new ! j))"
proof (induction hs arbitrary: i acc)
  case Nil
  then show ?case by simp
next
  case (Cons h hs)
  from Cons.prems obtain a where a: "advice_entry (rnd i) h = Inr a"
    and rest: "advice_loop rnd (Suc i) hs (acc @ [a]) = Inr recs"
    by (auto simp: Let_def split: sum.splits)
  from Cons.IH [OF rest] obtain new where new: "recs = (acc @ [a]) @ new"
    "length new = length hs"
    "\<forall>j<length hs. advice_entry (rnd (Suc i + j)) (hs ! j) = Inr (new ! j)"
    by blast
  have "\<forall>j<length (h # hs). advice_entry (rnd (i + j)) ((h # hs) ! j) = Inr ((a # new) ! j)"
    using a new(3) by (auto simp: nth_Cons split: nat.splits)
  with new(1,2) show ?case
    by (intro exI [of _ "a # new"]) simp
qed

lemma advice_loop_Inl:
  "advice_loop rnd i hs acc = Inl e \<longleftrightarrow>
     (\<exists>h. find (\<lambda>h. missing_key h \<noteq> None) hs = Some h \<and> e = KeyError (the (missing_key h)))"
proof (induction hs arbitrary: i acc)
  case Nil
  then show ?case by simp
next
  case (Cons h hs)
  show ?case
  proof (cases "advice_entry (rnd i) h")
    case (Inl e')
    then have "missing_key h \<noteq> None" "e' = KeyError (the (missing_key h))"
      by (simp_all add: advice_entry_Inl)
    with Inl show ?thesis by (auto simp: Let_def)
  next
    case (Inr a)
    then have "missing_key h = None" by (simp add: advice_entry_Inr)
    with Inr Cons.IH [of "Suc i" "acc @ [a]"] show ?thesis by (simp add: Let_def)
  qed
qed

lemma advice_loop_total:
  "list_all (\<lambda>h. missing_key h = None) hs \<Longrightarrow> \<exists>recs. advice_loop rnd i hs acc = Inr recs"
proof (induction hs arbitrary: i acc)
  case Nil
  then show ?case by simp
next
  case (Cons h hs)
  then obtain a where "advice_entry (rnd i) h = Inr a"
    using advice_entry_total [of h "rnd i"] by auto
  with Cons show ?case by (simp add: Let_def)
qed

lemma advise_Inr:
  "generate_betting_advice race_data historical_data rnd = Inr recs \<Longrightarrow>
     length recs = length (dict_get (horses race_data) []) \<and>
     (\<forall>j<length recs. advice_entry (rnd j) (dict_get (horses race_data) [] ! j) = Inr (recs ! j))"
  unfolding generate_betting_advice_def using advice_loop_Inr [of rnd 0 _ "[]" recs] by auto

lemma recommendation_cases:
  "(recommendation c = ''Win'' \<longleftrightarrow> c > 0.7) \<and>
   (recommendation c = ''Place'' \<longleftrightarrow> 0.4 < c \<and> c \<le> 0.7) \<and>
   (recommendation c = ''No Bet'' \<longleftrightarrow> c \<le> 0.4)"
  by (simp add: recommendation_def)

lemma advise_turf_race:
  "\<exists>recs. generate_betting_advice turf_race historical_data rnd = Inr recs \<and> length recs = 2"
proof -
  have "\<exists>recs. generate_betting_advice turf_race historical_data rnd = Inr recs"
    unfolding generate_betting_advice_def
    by (rule advice_loop_total) (simp add: turf_race_def dict_get_def missing_key_def)
  then obtain recs where ev: "generate_betting_advice turf_race historical_data rnd = Inr recs" ..
  from advise_Inr [OF ev] have "length recs = 2" by (simp add: turf_race_def dict_get_def)
  with ev show ?thesis by blast
qed

text \<open>
  C2. Whenever \<open>generate_betting_advice\<close> returns, the recommendation numbered \<open>i\<close>
  carries the confidence \<open>c\<close> drawn for horse \<open>i\<close>, and its \<^verbatim>\<open>recommendedBet\<close> is
  \<^verbatim>\<open>'Win'\<close> exactly when \<open>c > 0.7\<close>, \<^verbatim>\<open>'Place'\<close> exactly when
  \<open>0.4 < c \<le> 0.7\<close>, and \<^verbatim>\<open>'No Bet'\<close> (the enumeration value \<open>NoBet\<close> of the
  specification) exactly when \<open>c \<le> 0.4\<close>; at \<open>c = 0.7\<close> it is \<^verbatim>\<open>'Place'\<close> and
  at \<open>c = 0.4\<close> it is \<^verbatim>\<open>'No Bet'\<close>.
\<close>

theorem advise_thresholds:
  assumes "generate_betting_advice race_data historical_data rnd = Inr recs"
    and "i < length recs"
  shows "(recs ! i) ''confidence'' = Some (PyFloat (rnd i)) \<and>
         ((recs ! i) ''recommendedBet'' = Some (PyStr ''Win'') \<longleftrightarrow> rnd i > 0.7) \<and>
         ((recs ! i) ''recommendedBet'' = Some (PyStr ''Place'') \<longleftrightarrow>
            0.4 < rnd i \<and> rnd i \<le> 0.7) \<and>
         ((recs ! i) ''recommendedBet'' = Some (PyStr ''No Bet'') \<longleftrightarrow> rnd i \<le> 0.4) \<and>
         (rnd i = 0.7 \<longrightarrow> (recs ! i) ''recommendedBet'' = Some (PyStr ''Place'')) \<and>
         (rnd i = 0.4 \<longrightarrow> (recs ! i) ''recommendedBet'' = Some (PyStr ''No Bet''))"
proof -
  from advise_Inr [OF assms(1)] assms(2)
  have "advice_entry (rnd i) (dict_get (horses race_data) [] ! i) = Inr (recs ! i)" by simp
  from advice_entry_Inr [OF this]
  have "(recs ! i) ''confidence'' = Some (PyFloat (rnd i))"
    and "(recs ! i) ''recommendedBet'' = Some (PyStr (recommendation (rnd i)))" by simp_all
  with recommendation_cases [of "rnd i"] show ?thesis by simp
qed

theorem advise_thresholds_witness:
  "\<exists>recs. generate_betting_advice turf_race None boundary_draws = Inr recs \<and>
          length recs = 2 \<and>
          (recs ! 0) ''confidence'' = Some (PyFloat 0.7) \<and>
          (recs ! 0) ''recommendedBet'' = Some (PyStr ''Place'') \<and>
          (recs ! 1) ''confidence'' = Some (PyFloat 0.4) \<and>
          (recs ! 1) ''recommendedBet'' = Some (PyStr ''No Bet'')"
proof -
  from advise_turf_race obtain recs
    where ev: "generate_betting_advice turf_race None boundary_draws = Inr recs"
      and len: "length recs = 2" by blast
  from advise_thresholds [OF ev, of 0] advise_thresholds [OF ev, of 1] len
  have "(recs ! 0) ''confidence'' = Some (PyFloat 0.7) \<and>
        (recs ! 0) ''recommendedBet'' = Some (PyStr ''Place'') \<and>
        (recs ! 1) ''confidence'' = Some (PyFloat 0.4) \<and>
        (recs ! 1) ''recommendedBet'' = Some (PyStr ''No Bet'')"
    by (simp add: boundary_draws_def)
  with ev len show ?thesis by blast
qed

text \<open>
  C3. Whenever \<open>generate_betting_advice\<close> returns, horse \<open>i\<close> has odds, and the
  \<^verbatim>\<open>expectedOdds\<close> of its recommendation are these odds times
  \<open>1 + (1 - c) \<times> 0.5\<close>, for the confidence \<open>c\<close> drawn for it: the odds themselves at
  \<open>c = 1\<close>, and 1.5 times the odds at \<open>c = 0\<close>.
\<close>

theorem advise_expected_odds:
  assumes "generate_betting_advice race_data historical_data rnd = Inr recs"
    and "i < length recs"
  shows "\<exists>horse_odds.
           odds (dict_get (horses race_data) [] ! i) = Some horse_odds \<and>
           (recs ! i) ''expectedOdds'' = Some (PyFloat (horse_odds * (1 + (1 - rnd i) * 0.5))) \<and>
           (rnd i = 1 \<longrightarrow> (recs ! i) ''expectedOdds'' = Some (PyFloat horse_odds)) \<and>
           (rnd i = 0 \<longrightarrow> (recs ! i) ''expectedOdds'' = Some (PyFloat (horse_odds * 1.5)))"
proof -
  let ?h = "dict_get (horses race_data) [] ! i"
  from advise_Inr [OF assms(1)] assms(2)
  have "advice_entry (rnd i) ?h = Inr (recs ! i)" by simp
  from advice_entry_Inr [OF this]
  have m: "missing_key ?h = None"
    and e: "(recs ! i) ''expectedOdds'' = Some (PyFloat (the (odds ?h) * (1 + (1 - rnd i) * 0.5)))"
    by simp_all
  from m obtain horse_odds where "odds ?h = Some horse_odds"
    by (auto simp: missing_key_def split: if_splits)
  with e show ?thesis by simp
qed

theorem advise_expected_odds_witness:
  "\<exists>recs. generate_betting_advice turf_race None extreme_draws = Inr recs \<and>
          length recs = 2 \<and>
          (recs ! 0) ''expectedOdds'' = Some (PyFloat 3) \<and>
          (recs ! 1) ''expectedOdds'' = Some (PyFloat (15 / 2))"
proof -
  from advise_turf_race obtain recs
    where ev: "generate_betting_advice turf_race None extreme_draws = Inr recs"
      and len: "length recs = 2" by blast
  from advise_expected_odds [OF ev, of 0] advise_expected_odds [OF ev, of 1] len
  have "(recs ! 0) ''expectedOdds'' = Some (PyFloat 3) \<and>
        (recs ! 1) ''expectedOdds'' = Some (PyFloat (15 / 2))"
    by (auto simp: extreme_draws_def turf_race_def dict_get_def)
  with ev len show ?thesis by blast
qed

text \<open>
  C8. \<open>generate_betting_advice\<close> fails exactly when a horse of the race lacks
  \<^verbatim>\<open>id\<close>, \<^verbatim>\<open>name\<close> or \<^verbatim>\<open>odds\<close>; the weight is never read. The error is
  the \<^verbatim>\<open>KeyError\<close> (MalformedEntry in the specification) of the first horse, in
  the order of the list, that lacks one of the three keys, for the first key it lacks.
  When every horse has the three keys, the call returns one recommendation for each horse,
  in the order of the horses.
\<close>

theorem advise_failure:
  assumes "dict_get (horses race_data) [] = hs"
  shows "((\<exists>e. generate_betting_advice race_data historical_data rnd = Inl e) \<longleftrightarrow>
            (\<exists>h\<in>set hs. id_field h = None \<or> name h = None \<or> odds h = None)) \<and>
         (\<forall>e. generate_betting_advice race_data historical_data rnd = Inl e \<longleftrightarrow>
            (\<exists>h. find (\<lambda>h. missing_key h \<noteq> None) hs = Some h \<and>
                 e = KeyError (the (missing_key h)))) \<and>
         ((\<forall>h\<in>set hs. id_field h \<noteq> None \<and> name h \<noteq> None \<and> odds h \<noteq> None) \<longrightarrow>
            (\<exists>recs. generate_betting_advice race_data historical_data rnd = Inr recs \<and>
               length recs = length hs \<and>
               map (\<lambda>r. r ''horseId'') recs = map (\<lambda>h. map_option PyStr (id_field h)) hs \<and>
               map (\<lambda>r. r ''horseName'') recs = map (\<lambda>h. map_option PyStr (name h)) hs))"
proof -
  let ?run = "generate_betting_advice race_data historical_data rnd"
  have mk: "missing_key h \<noteq> None \<longleftrightarrow> id_field h = None \<or> name h = None \<or> odds h = None" for h
    by (simp add: missing_key_def)
  have Inl_iff: "?run = Inl e \<longleftrightarrow>
      (\<exists>h. find (\<lambda>h. missing_key h \<noteq> None) hs = Some h \<and> e = KeyError (the (missing_key h)))" for e
    using assms by (simp add: generate_betting_advice_def advice_loop_Inl)
  have fails: "(\<exists>e. ?run = Inl e) \<longleftrightarrow> (\<exists>h\<in>set hs. missing_key h \<noteq> None)"
  proof -
    have "(\<exists>e. ?run = Inl e) \<longleftrightarrow> find (\<lambda>h. missing_key h \<noteq> None) hs \<noteq> None"
      by (auto simp: Inl_iff)
    then show ?thesis by (auto simp: find_None_iff)
  qed
  have returns: "\<exists>recs. ?run = Inr recs \<and> length recs = length hs \<and>
        map (\<lambda>r. r ''horseId'') recs = map (\<lambda>h. map_option PyStr (id_field h)) hs \<and>
        map (\<lambda>r. r ''horseName'') recs = map (\<lambda>h. map_option PyStr (name h)) hs"
    if ok: "\<forall>h\<in>set hs. id_field h \<noteq> None \<and> name h \<noteq> None \<and> odds h \<noteq> None"
  proof -
    from ok mk fails have "\<not> (\<exists>e. ?run = Inl e)" by blast
    then obtain recs where r: "?run = Inr recs" by (cases ?run) auto
    from advise_Inr [OF r] assms have len: "length recs = length hs"
      and ent: "\<forall>j<length recs. advice_entry (rnd j) (hs ! j) = Inr (recs ! j)"
      by simp_all
    have "map (\<lambda>r. r ''horseId'') recs = map (\<lambda>h. map_option PyStr (id_field h)) hs"
      using len ent advice_entry_Inr by (intro nth_equalityI) auto
    moreover have "map (\<lambda>r. r ''horseName'') recs = map (\<lambda>h. map_option PyStr (name h)) hs"
      using len ent advice_entry_Inr by (intro nth_equalityI) auto
    ultimately show ?thesis using r len by blast
  qed
  from fails mk have "(\<exists>e. ?run = Inl e) \<longleftrightarrow>
      (\<exists>h\<in>set hs. id_field h = None \<or> name h = None \<or> odds h = None)" by simp
  with Inl_iff returns show ?thesis by blast
qed

theorem advise_failure_witness:
  "(\<exists>recs. generate_betting_advice unweighed_race None boundary_draws = Inr recs \<and>
      length recs = 2 \<and>
      map (\<lambda>r. r ''horseId'') recs = [Some (PyStr ''h1''), Some (PyStr ''h2'')] \<and>
      map (\<lambda>r. r ''horseName'') recs = [Some (PyStr ''Alpha''), Some (PyStr ''Beta'')]) \<and>
   generate_betting_advice unnamed_race None boundary_draws = Inl (KeyError ''name'')"
proof -
  let ?hs = "the (horses unweighed_race)"
  have hs: "dict_get (horses unweighed_race) [] = ?hs"
    by (simp add: unweighed_race_def dict_get_def)
  have ok: "\<forall>h\<in>set ?hs. id_field h \<noteq> None \<and> name h \<noteq> None \<and> odds h \<noteq> None"
    by (simp add: unweighed_race_def no_race_def no_entry_def)
  from advise_failure [OF hs, of None boundary_draws, THEN conjunct2, THEN conjunct2, THEN mp, OF ok]
  obtain recs where "generate_betting_advice unweighed_race None boundary_draws = Inr recs"
    and "length recs = length ?hs"
    and "map (\<lambda>r. r ''horseId'') recs = map (\<lambda>h. map_option PyStr (id_field h)) ?hs"
    and "map (\<lambda>r. r ''horseName'') recs = map (\<lambda>h. map_option PyStr (name h)) ?hs"
    by blast
  then have "\<exists>recs. generate_betting_advice unweighed_race None boundary_draws = Inr recs \<and>
      length recs = 2 \<and>
      map (\<lambda>r. r ''horseId'') recs = [Some (PyStr ''h1''), Some (PyStr ''h2'')] \<and>
      map (\<lambda>r. r ''horseName'') recs = [Some (PyStr ''Alpha''), Some (PyStr ''Beta'')]"
    by (simp add: unweighed_race_def no_race_def no_entry_def)
  moreover
  let ?gs = "the (horses unnamed_race)"
  have gs: "dict_get (horses unnamed_race) [] = ?gs"
    by (simp add: unnamed_race_def dict_get_def)
  have "\<exists>h. find (\<lambda>h. missing_key h \<noteq> None) ?gs = Some h \<and>
            KeyError ''name'' = KeyError (the (missing_key h))"
    by (simp add: unnamed_race_def no_race_def no_entry_def missing_key_def)
  with advise_failure [OF gs, of None boundary_draws, THEN conjunct2, THEN conjunct1]
  have "generate_betting_advice unnamed_race None boundary_draws = Inl (KeyError ''name'')"
    by blast
  ultimately show ?thesis by blast
qed

text \<open>
  C9. For the same race and a horse with positive odds, a smaller confidence gives
  \<^verbatim>\<open>expectedOdds\<close> at least as large: if the confidence drawn for horse \<open>i\<close> in one
  run is less than the one drawn for it in another, the expected odds of the first run
  are greater than or equal to those of the second. Odds and confidence are reals here.
\<close>

theorem advise_monotone:
  assumes "generate_betting_advice race_data historical_1 rnd1 = Inr recs1"
    and "generate_betting_advice race_data historical_2 rnd2 = Inr recs2"
    and "i < length recs1"
    and "odds (dict_get (horses race_data) [] ! i) = Some horse_odds" and "0 < horse_odds"
    and "rnd1 i < rnd2 i"
  shows "\<exists>x1 x2. (recs1 ! i) ''expectedOdds'' = Some (PyFloat x1) \<and>
                 (recs2 ! i) ''expectedOdds'' = Some (PyFloat x2) \<and> x2 \<le> x1"
proof -
  let ?h = "dict_get (horses race_data) [] ! i"
  from advise_Inr [OF assms(1)] advise_Inr [OF assms(2)] assms(3)
  have "advice_entry (rnd1 i) ?h = Inr (recs1 ! i)" "advice_entry (rnd2 i) ?h = Inr (recs2 ! i)"
    by simp_all
  from advice_entry_Inr [OF this(1)] advice_entry_Inr [OF this(2)] assms(4)
  have "(recs1 ! i) ''expectedOdds'' = Some (PyFloat (horse_odds * (1 + (1 - rnd1 i) * 0.5)))"
    and "(recs2 ! i) ''expectedOdds'' = Some (PyFloat (horse_odds * (1 + (1 - rnd2 i) * 0.5)))"
    by simp_all
  moreover from assms(5,6)
  have "horse_odds * (1 + (1 - rnd2 i) * 0.5) \<le> horse_odds * (1 + (1 - rnd1 i) * 0.5)"
    by simp
  ultimately show ?thesis by blast
qed

theorem advise_monotone_witness:
  "\<exists>recs1 recs2 x1 x2.
     generate_betting_advice turf_race None extreme_draws = Inr recs1 \<and>
     generate_betting_advice turf_race None boundary_draws = Inr recs2 \<and>
     extreme_draws 1 < boundary_draws 1 \<and>
     (recs1 ! 1) ''expectedOdds'' = Some (PyFloat x1) \<and>
     (recs2 ! 1) ''expectedOdds'' = Some (PyFloat x2) \<and> x2 \<le> x1"
proof -
  from advise_turf_race obtain recs1
    where ev1: "generate_betting_advice turf_race None extreme_draws = Inr recs1"
      and len: "length recs1 = 2" by blast
  from advise_turf_race obtain recs2
    where ev2: "generate_betting_advice turf_race None boundary_draws = Inr recs2" by blast
  have lt: "extreme_draws 1 < boundary_draws 1"
    by (simp add: extreme_draws_def boundary_draws_def)
  have "odds (dict_get (horses turf_race) [] ! 1) = Some 5"
    by (simp add: turf_race_def dict_get_def)
  from advise_monotone [OF ev1 ev2 _ this _ lt] len
  obtain x1 x2 where "(recs1 ! 1) ''expectedOdds'' = Some (PyFloat x1)"
    "(recs2 ! 1) ''expectedOdds'' = Some (PyFloat x2)" "x2 \<le> x1" by auto
  with ev1 ev2 lt show ?thesis by blast
qed

text \<open>
  C10. The argument \<^verbatim>\<open>historical_data\<close> is never read: for the same race and the
  same draws, any two values of it, \<open>None\<close> included, give the same result, the same
  list of recommendations or the same error.
\<close>

theorem advise_ignores_historical:
  "generate_betting_advice race_data historical_1 rnd =
   generate_betting_advice race_data historical_2 rnd"
  by (simp add: generate_betting_advice_def)

theorem advise_ignores_historical_witness:
  "generate_betting_advice turf_race None boundary_draws =
   generate_betting_advice turf_race (Some two_races) boundary_draws"
  using advise_ignores_historical [of turf_race None boundary_draws "Some two_races"] .

section \<open>Historical performance\<close>

lemma runs_in_list_ex:
  "runs_in horse_id r \<longleftrightarrow>
     list_ex (\<lambda>h. id_field h = Some horse_id) (dict_get (results r) [])"
  by (simp add: runs_in_def list_ex_iff)

lemma ids_present_list_all:
  "ids_present races \<longleftrightarrow>
     list_all (\<lambda>r. list_all (\<lambda>h. id_field h \<noteq> None) (dict_get (results r) [])) races"
  by (simp add: ids_present_def list_all_iff)

lemma any_id_Inl:
  "any_id horse_id hs = Inl e \<Longrightarrow> e = KeyError ''id'' \<and> (\<exists>h\<in>set hs. id_field h = None)"
  by (induction hs) (auto simp: subscript_def split: option.splits if_splits)

lemma any_id_False:
  "any_id horse_id hs = Inr False \<Longrightarrow> \<forall>h\<in>set hs. id_field h \<noteq> None \<and> id_field h \<noteq> Some horse_id"
  by (induction hs) (auto simp: subscript_def split: option.splits if_splits)

lemma any_id_ids:
  "\<forall>h\<in>set hs. id_field h \<noteq> None \<Longrightarrow>
     any_id horse_id hs = Inr (\<exists>h\<in>set hs. id_field h = Some horse_id)"
  by (induction hs) (auto simp: subscript_def split: option.splits)

lemma inner_loop_eq:
  "inner_loop horse_id hs ps =
     (if \<forall>h\<in>set hs. id_field h \<noteq> None
      then Inr (ps @ map (\<lambda>h. case position h of None \<Rightarrow> 0 | Some p \<Rightarrow> p)
                       (filter (\<lambda>h. id_field h = Some horse_id) hs))
      else Inl (KeyError ''id''))"
  by (induction hs arbitrary: ps) (auto simp: subscript_def dict_get_def split: option.splits)

lemma outer_loop_eq:
  "outer_loop horse_id rs ps =
     (if ids_present rs then Inr (ps @ positions_of horse_id rs) else Inl (KeyError ''id''))"
proof (induction rs arbitrary: ps)
  case Nil
  then show ?case by (simp add: ids_present_def positions_of_def)
next
  case (Cons r rs)
  show ?case
  proof (cases "\<forall>h\<in>set (dict_get (results r) []). id_field h \<noteq> None")
    case True
    then have "ids_present (r # rs) = ids_present rs" by (simp add: ids_present_def)
    with True Cons.IH show ?thesis
      by (simp add: inner_loop_eq positions_of_def race_positions_def)
  next
    case False
    then have "\<not> ids_present (r # rs)" by (simp add: ids_present_def)
    with False show ?thesis by (auto simp: inner_loop_eq)
  qed
qed

lemma filter_comprehension_Inl:
  "filter_comprehension p xs = Inl e \<Longrightarrow> \<exists>x\<in>set xs. p x = Inl e"
  by (induction xs arbitrary: e) (auto split: sum.splits)

lemma filter_comprehension_Inr:
  "filter_comprehension p xs = Inr ys \<Longrightarrow>
     ys = filter (\<lambda>x. p x = Inr True) xs \<and> (\<forall>x\<in>set xs. \<exists>b. p x = Inr b)"
  by (induction xs arbitrary: ys) (auto split: sum.splits)

lemma filter_comprehension_total:
  "\<forall>x\<in>set xs. p x = Inr (q x) \<Longrightarrow> filter_comprehension p xs = Inr (filter q xs)"
  by (induction xs) auto

lemma filter_races_ids:
  assumes "ids_present races"
  shows "filter_comprehension (\<lambda>r. any_id horse_id (dict_get (results r) [])) races =
           Inr (filter (runs_in horse_id) races)"
proof (rule filter_comprehension_total, rule ballI)
  fix r assume "r \<in> set races"
  with assms have "\<forall>h\<in>set (dict_get (results r) []). id_field h \<noteq> None"
    by (simp add: ids_present_def)
  from any_id_ids [OF this]
  show "any_id horse_id (dict_get (results r) []) = Inr (runs_in horse_id r)"
    by (simp add: runs_in_def)
qed

lemma positions_of_runs_in:
  "positions_of horse_id (filter (runs_in horse_id) races) = positions_of horse_id races"
proof (induction races)
  case Nil
  then show ?case by simp
next
  case (Cons r rs)
  have "\<not> runs_in horse_id r \<Longrightarrow> race_positions horse_id r = []"
    by (auto simp: runs_in_def race_positions_def filter_empty_conv)
  with Cons show ?case by (simp add: positions_of_def)
qed

lemma positions_of_nonempty:
  "\<exists>r\<in>set races. runs_in horse_id r \<Longrightarrow> positions_of horse_id races \<noteq> []"
  by (auto simp: positions_of_def runs_in_def race_positions_def filter_empty_conv)

lemma recent_form_last5: "recent_form ps = rev (take 5 (rev ps))"
  by (simp add: recent_form_def take_rev)

lemma analyze_ids:
  assumes "ids_present races"
  shows "analyze_historical_performance horse_id races =
           Inr (let horse_races = filter (runs_in horse_id) races;
                    ps = positions_of horse_id races
                in if horse_races = [] then
                     [''horse_id'' \<mapsto> PyStr horse_id,
                      ''performance'' \<mapsto> PyStr ''No historical data'']
                   else
                     [''horse_id'' \<mapsto> PyStr horse_id,
                      ''total_races'' \<mapsto> PyInt (int (length horse_races)),
                      ''average_position'' \<mapsto> PyFloat (real_of_int (sum_list ps) / real (length ps)),
                      ''win_rate'' \<mapsto> PyFloat (real (count_list ps 1) / real (length ps)),
                      ''recent_form'' \<mapsto> PyList (rev (take 5 (rev ps)))])"
proof -
  let ?hr = "filter (runs_in horse_id) races"
  from assms have "ids_present ?hr" by (auto simp: ids_present_def)
  then have ol: "outer_loop horse_id ?hr [] = Inr (positions_of horse_id races)"
    by (simp add: outer_loop_eq positions_of_runs_in)
  have ne: "?hr \<noteq> [] \<Longrightarrow> positions_of horse_id races \<noteq> []"
    using positions_of_nonempty [of races horse_id] by (auto simp: filter_empty_conv)
  have sm: "sum_list (map real_of_int ps) = real_of_int (sum_list ps)" for ps
    by (induction ps) simp_all
  have ct: "length (filter (\<lambda>p. p = 1) ps) = count_list ps 1" for ps :: "int list"
    by (induction ps) simp_all
  show ?thesis
    using ne
    by (simp add: analyze_historical_performance_def filter_races_ids [OF assms] ol Let_def
        mean_def sm recent_form_last5 ct)
qed

lemma analyze_no_ids:
  assumes "\<not> ids_present races"
  shows "analyze_historical_performance horse_id races = Inl (KeyError ''id'')"
proof (cases "filter_comprehension (\<lambda>r. any_id horse_id (dict_get (results r) [])) races")
  case (Inl e)
  from filter_comprehension_Inl [OF this] any_id_Inl have "e = KeyError ''id''" by blast
  with Inl show ?thesis by (simp add: analyze_historical_performance_def)
next
  case (Inr horse_races)
  from filter_comprehension_Inr [OF this]
  have hr: "horse_races = filter (\<lambda>r. any_id horse_id (dict_get (results r) []) = Inr True) races"
    and tot: "\<forall>r\<in>set races. \<exists>b. any_id horse_id (dict_get (results r) []) = Inr b"
    by simp_all
  from assms obtain r h where r: "r \<in> set races" "h \<in> set (dict_get (results r) [])"
    "id_field h = None" by (auto simp: ids_present_def)
  from tot r(1) obtain b where b: "any_id horse_id (dict_get (results r) []) = Inr b" by blast
  have "b" using any_id_False [of horse_id "dict_get (results r) []"] b r(2,3) by (cases b) auto
  with b r(1) hr have "r \<in> set horse_races" by simp
  with r(2,3) have "horse_races \<noteq> []" "\<not> ids_present horse_races"
    by (auto simp: ids_present_def)
  with Inr show ?thesis
    by (simp add: analyze_historical_performance_def outer_loop_eq)
qed

text \<open>
  C4, as the code has it. For a list of races whose results entries all have an
  \<^verbatim>\<open>id\<close>, and in which at least one race has an entry of \<open>horse_id\<close>,
  \<open>analyze_historical_performance\<close> returns the profile in which
  \<^verbatim>\<open>total_races\<close> is the number of races with an entry of the horse,
  \<^verbatim>\<open>average_position\<close> is the sum of the positions of its entries in these races
  (an absent position is 0) divided by their number, \<^verbatim>\<open>win_rate\<close> is the number of
  these positions that are 1 divided by their number, and \<^verbatim>\<open>recent_form\<close> is the
  last five of them in the order of the list, all of them when there are fewer. There is at
  least one position, so both quotients are proper.
\<close>

theorem analyze_profile:
  assumes "ids_present races" and "\<exists>r\<in>set races. runs_in horse_id r"
  shows "let horse_races = filter (runs_in horse_id) races;
             ps = positions_of horse_id horse_races
         in ps \<noteq> [] \<and>
            analyze_historical_performance horse_id races =
              Inr [''horse_id'' \<mapsto> PyStr horse_id,
                   ''total_races'' \<mapsto> PyInt (int (length horse_races)),
                   ''average_position'' \<mapsto> PyFloat (real_of_int (sum_list ps) / real (length ps)),
                   ''win_rate'' \<mapsto> PyFloat (real (count_list ps 1) / real (length ps)),
                   ''recent_form'' \<mapsto> PyList (rev (take 5 (rev ps)))]"
proof -
  from assms(2) have "filter (runs_in horse_id) races \<noteq> []"
    by (auto simp: filter_empty_conv)
  moreover from assms(2) have "positions_of horse_id races \<noteq> []"
    by (rule positions_of_nonempty)
  ultimately show ?thesis
    by (simp add: analyze_ids [OF assms(1)] positions_of_runs_in Let_def)
qed

theorem analyze_profile_witness:
  "analyze_historical_performance ''h1'' two_races =
     Inr [''horse_id'' \<mapsto> PyStr ''h1'', ''total_races'' \<mapsto> PyInt 2,
          ''average_position'' \<mapsto> PyFloat 2, ''win_rate'' \<mapsto> PyFloat (1 / 2),
          ''recent_form'' \<mapsto> PyList [1, 3]] \<and>
   analyze_historical_performance ''h1'' long_history =
     Inr [''horse_id'' \<mapsto> PyStr ''h1'', ''total_races'' \<mapsto> PyInt 2,
          ''average_position'' \<mapsto> PyFloat (11 / 6), ''win_rate'' \<mapsto> PyFloat (1 / 3),
          ''recent_form'' \<mapsto> PyList [0, 3, 1, 4, 2]]"
proof -
  have "ids_present two_races" and "\<exists>r\<in>set two_races. runs_in ''h1'' r"
    by (simp_all add: ids_present_list_all runs_in_list_ex two_races_def result_def no_race_def
        no_entry_def dict_get_def)
  from analyze_profile [OF this]
  have "analyze_historical_performance ''h1'' two_races =
     Inr [''horse_id'' \<mapsto> PyStr ''h1'', ''total_races'' \<mapsto> PyInt 2,
          ''average_position'' \<mapsto> PyFloat 2, ''win_rate'' \<mapsto> PyFloat (1 / 2),
          ''recent_form'' \<mapsto> PyList [1, 3]]"
    by (simp add: Let_def runs_in_list_ex positions_of_def race_positions_def two_races_def
        result_def no_race_def no_entry_def dict_get_def)
  moreover
  have "ids_present long_history" and "\<exists>r\<in>set long_history. runs_in ''h1'' r"
    by (simp_all add: ids_present_list_all runs_in_list_ex long_history_def result_def
        no_race_def no_entry_def dict_get_def)
  from analyze_profile [OF this]
  have "analyze_historical_performance ''h1'' long_history =
     Inr [''horse_id'' \<mapsto> PyStr ''h1'', ''total_races'' \<mapsto> PyInt 2,
          ''average_position'' \<mapsto> PyFloat (11 / 6), ''win_rate'' \<mapsto> PyFloat (1 / 3),
          ''recent_form'' \<mapsto> PyList [0, 3, 1, 4, 2]]"
    by (simp add: Let_def runs_in_list_ex positions_of_def race_positions_def long_history_def
        result_def no_race_def no_entry_def dict_get_def)
  ultimately show ?thesis by blast
qed

text \<open>
  The claim C4 as it is written, for every list of races with an entry of the horse, fails
  on a race that lists the horse and then an entry without \<^verbatim>\<open>id\<close>: the race is
  kept, and the loop over its results raises \<^verbatim>\<open>KeyError\<close> at the second entry.
\<close>

theorem analyze_profile_counterexample:
  "analyze_historical_performance ''h1''
     [\<lparr>surface = None, horses = None,
       results = Some
         [\<lparr>id_field = Some ''h1'', name = None, odds = None, weight = None, position = Some 1\<rparr>,
          \<lparr>id_field = None, name = None, odds = None, weight = None, position = Some 2\<rparr>]\<rparr>] =
   Inl (KeyError ''id'')"
  by (simp add: analyze_historical_performance_def subscript_def dict_get_def)

text \<open>
  C5, as the code has it. For a list of races whose results entries all have an
  \<^verbatim>\<open>id\<close>, none of them equal to \<open>horse_id\<close> (names are not looked at),
  \<open>analyze_historical_performance\<close> returns the dictionary of the two keys
  \<^verbatim>\<open>horse_id\<close> and \<^verbatim>\<open>performance\<close>, the latter
  \<^verbatim>\<open>'No historical data'\<close>; it has no key \<^verbatim>\<open>total_races\<close>.
\<close>

theorem analyze_no_history:
  assumes "ids_present races" and "\<not> (\<exists>r\<in>set races. runs_in horse_id r)"
  shows "\<exists>d. analyze_historical_performance horse_id races = Inr d \<and>
             d = [''horse_id'' \<mapsto> PyStr horse_id,
                  ''performance'' \<mapsto> PyStr ''No historical data''] \<and>
             dom d = {''horse_id'', ''performance''} \<and>
             d ''total_races'' = None"
proof -
  from assms(2) have "filter (runs_in horse_id) races = []"
    by (auto simp: filter_empty_conv)
  then have "analyze_historical_performance horse_id races =
      Inr [''horse_id'' \<mapsto> PyStr horse_id, ''performance'' \<mapsto> PyStr ''No historical data'']"
    by (simp add: analyze_ids [OF assms(1)])
  then show ?thesis by auto
qed

theorem analyze_no_history_witness:
  "analyze_historical_performance ''h1'' name_only =
     Inr [''horse_id'' \<mapsto> PyStr ''h1'', ''performance'' \<mapsto> PyStr ''No historical data'']"
proof -
  have "ids_present name_only" and "\<not> (\<exists>r\<in>set name_only. runs_in ''h1'' r)"
    by (simp_all add: ids_present_list_all runs_in_list_ex name_only_def result_def no_race_def
        no_entry_def dict_get_def)
  from analyze_no_history [OF this] show ?thesis by blast
qed

text \<open>
  The claim C5 as it is written, for every list of races without an entry of the horse,
  fails on an entry that has the name \<^verbatim>\<open>h1\<close> and no \<^verbatim>\<open>id\<close>: the filter
  raises \<^verbatim>\<open>KeyError\<close>.
\<close>

theorem analyze_no_history_counterexample:
  "analyze_historical_performance ''h1''
     [\<lparr>surface = None, horses = None,
       results = Some
         [\<lparr>id_field = None, name = Some ''h1'', odds = None, weight = None,
           position = Some 1\<rparr>]\<rparr>] =
   Inl (KeyError ''id'')"
  by (simp add: analyze_historical_performance_def subscript_def dict_get_def)

text \<open>
  C7, as the code has it. \<open>analyze_historical_performance\<close> returns exactly when every
  entry of every results list has an \<^verbatim>\<open>id\<close>, and raises
  \<^verbatim>\<open>KeyError('id')\<close> otherwise. The other absent keys default: a race without
  \<^verbatim>\<open>results\<close> has no entries, and the positions the loop collects from the races of
  the horse are those of its entries, an absent position being 0.
\<close>

theorem analyze_failure:
  "((\<exists>d. analyze_historical_performance horse_id races = Inr d) \<longleftrightarrow> ids_present races) \<and>
   (\<not> ids_present races \<longrightarrow>
      analyze_historical_performance horse_id races = Inl (KeyError ''id'')) \<and>
   (ids_present races \<longrightarrow>
      outer_loop horse_id (filter (runs_in horse_id) races) [] =
        Inr (positions_of horse_id races))"
proof (intro conjI impI)
  show "(\<exists>d. analyze_historical_performance horse_id races = Inr d) \<longleftrightarrow> ids_present races"
  proof (cases "ids_present races")
    case True
    from analyze_ids [OF this, of horse_id] True show ?thesis by blast
  next
    case False
    from analyze_no_ids [OF this, of horse_id] False show ?thesis by simp
  qed
  show "analyze_historical_performance horse_id races = Inl (KeyError ''id'')"
    if "\<not> ids_present races" using that by (rule analyze_no_ids)
  show "outer_loop horse_id (filter (runs_in horse_id) races) [] =
          Inr (positions_of horse_id races)" if "ids_present races"
  proof -
    from that have "ids_present (filter (runs_in horse_id) races)"
      by (auto simp: ids_present_def)
    then show ?thesis by (simp add: outer_loop_eq positions_of_runs_in)
  qed
qed

theorem analyze_failure_witness:
  "(\<exists>d. analyze_historical_performance ''h1'' long_history = Inr d) \<and>
   outer_loop ''h1'' (filter (runs_in ''h1'') long_history) [] = Inr [1, 0, 3, 1, 4, 2] \<and>
   analyze_historical_performance ''h1'' [no_race\<lparr>results := Some [no_entry]\<rparr>] =
     Inl (KeyError ''id'')"
proof -
  have ok: "ids_present long_history"
    by (simp add: ids_present_list_all long_history_def result_def no_race_def no_entry_def
        dict_get_def)
  have ps: "positions_of ''h1'' long_history = [1, 0, 3, 1, 4, 2]"
    by (simp add: positions_of_def race_positions_def long_history_def result_def no_race_def
        no_entry_def dict_get_def)
  have bad: "\<not> ids_present [no_race\<lparr>results := Some [no_entry]\<rparr>]"
    by (simp add: ids_present_list_all no_race_def no_entry_def dict_get_def)
  from analyze_failure [of "''h1''" long_history] ok ps
  have "(\<exists>d. analyze_historical_performance ''h1'' long_history = Inr d) \<and>
        outer_loop ''h1'' (filter (runs_in ''h1'') long_history) [] = Inr [1, 0, 3, 1, 4, 2]"
    by simp
  moreover from analyze_failure [of "''h1''" "[no_race\<lparr>results := Some [no_entry]\<rparr>]"] bad
  have "analyze_historical_performance ''h1'' [no_race\<lparr>results := Some [no_entry]\<rparr>] =
          Inl (KeyError ''id'')"
    by blast
  ultimately show ?thesis by blast
qed

text \<open>
  The claim C7 as it is written, that no list of races makes the analysis fail, is refuted
  by one race whose only results entry is the empty dictionary.
\<close>

theorem analyze_failure_counterexample:
  "analyze_historical_performance ''h1''
     [\<lparr>surface = None, horses = None,
       results = Some
         [\<lparr>id_field = None, name = None, odds = None, weight = None, position = None\<rparr>]\<rparr>] =
   Inl (KeyError ''id'')"
  by (simp add: analyze_historical_performance_def subscript_def dict_get_def)

end
